theory Spec2Isabelle
  imports Complex_Main
begin

section \<open>Inventory ledger: the counters of a TicketType\<close>

text \<open>
  The model follows the attribute values of the Python objects. Django's
  \<^verbatim>\<open>save(update_fields=...)\<close> persists attributes that the method has already
  assigned, so an assignment is a record update here. Python integers are unbounded and
  are modelled by \<^typ>\<open>int\<close>; the three counters are declared
  \<^verbatim>\<open>PositiveIntegerField\<close>, which is the source of the non-negativity
  assumptions made further down. Columns that none of the modelled methods reads are
  left out of the records. A ticket is a row of the ticket table, so its creation time is
  set and \<^verbatim>\<open>Ticket.save\<close>, which \<^verbatim>\<open>check_in\<close> calls, does no more than fill in the QR data
  and the validation code, two of the columns left out.
\<close>

datatype sale_status = Not_started | On_sale | Paused | Sold_out | Ended

record ticket_type =
  quantity :: int
  sold_count :: int
  reserved_count :: int
  sale_status :: sale_status

definition available_count :: "ticket_type \<Rightarrow> int" where
  "available_count t = max 0 (quantity t - sold_count t - reserved_count t)"

definition is_sold_out :: "ticket_type \<Rightarrow> bool" where
  "is_sold_out t \<longleftrightarrow> available_count t = 0"

text \<open>\<^verbatim>\<open>reserve_tickets\<close> returns \<^verbatim>\<open>True\<close> or \<^verbatim>\<open>False\<close>; the object after the call is the
  second component.\<close>

definition reserve_tickets :: "ticket_type \<Rightarrow> int \<Rightarrow> bool \<times> ticket_type" where
  "reserve_tickets t q =
     (if q \<le> available_count t
      then (True, t\<lparr>reserved_count := reserved_count t + q\<rparr>)
      else (False, t))"

definition release_reservation :: "ticket_type \<Rightarrow> int \<Rightarrow> ticket_type" where
  "release_reservation t q = t\<lparr>reserved_count := max 0 (reserved_count t - q)\<rparr>"

definition sell_tickets :: "ticket_type \<Rightarrow> int \<Rightarrow> bool \<times> ticket_type" where
  "sell_tickets t q =
     (if q \<le> available_count t + reserved_count t then
        let t1 = (if q \<le> reserved_count t
                  then t\<lparr>reserved_count := reserved_count t - q\<rparr>
                  else t\<lparr>reserved_count := 0\<rparr>);
            t2 = t1\<lparr>sold_count := sold_count t1 + q\<rparr>;
            t3 = (if available_count t2 = 0 then t2\<lparr>sale_status := Sold_out\<rparr> else t2)
        in (True, t3)
      else (False, t))"

text \<open>The conservation invariant of the ledger.\<close>

definition conserved :: "ticket_type \<Rightarrow> bool" where
  "conserved t \<longleftrightarrow> sold_count t + reserved_count t \<le> quantity t"

definition tt_example :: ticket_type where
  "tt_example = \<lparr>quantity = 10, sold_count = 3, reserved_count = 4, sale_status = On_sale\<rparr>"

section \<open>Bookings, booking items and tickets\<close>

text \<open>
  Timestamps count microseconds, the resolution of Python's \<^verbatim>\<open>datetime\<close>; every
  operation receives the value of \<^verbatim>\<open>timezone.now()\<close> as its first argument. Amounts of
  money are \<^verbatim>\<open>Decimal\<close> values; sums, products, comparisons and the division by 100
  are exact for values in the range of the fields (at most ten digits), so they are
  modelled by rational numbers. A JSON object is an association list of strings.
\<close>

type_synonym timestamp = int
type_synonym money = rat
type_synonym user_id = nat
type_synonym json_object = "(string \<times> string) list"

definition timedelta_minutes :: "int \<Rightarrow> int" where
  "timedelta_minutes m = m * 60000000"

definition timedelta_hours :: "int \<Rightarrow> int" where
  "timedelta_hours h = h * 3600000000"

datatype booking_status =
  Bk_pending | Bk_confirmed | Bk_paid | Bk_cancelled | Bk_expired | Bk_refunded
  | Bk_partially_refunded

datatype booking_payment_status =
  Bp_pending | Bp_processing | Bp_paid | Bp_failed | Bp_refunded | Bp_partially_refunded

record booking =
  booking_id :: nat
  booking_event :: nat
  booking_user :: user_id
  customer_email :: string
  customer_phone :: string
  customer_first_name :: string
  customer_last_name :: string
  status :: booking_status
  payment_status :: booking_payment_status
  booking_expires_at :: "timestamp option"
  confirmed_at :: "timestamp option"
  cancelled_at :: "timestamp option"
  cancellation_reason :: string
  cancelled_by :: "user_id option"

record booking_item =
  item_booking :: nat
  item_ticket_type :: nat
  item_quantity :: int
  unit_price :: money
  service_fee_per_ticket :: money
  tax_per_ticket :: money
  item_currency :: string
  assigned_seats :: "json_object list"

datatype ticket_status =
  Tk_active | Tk_used | Tk_refunded | Tk_transferred | Tk_cancelled | Tk_expired

record ticket =
  tk_ticket_type :: nat
  tk_event :: nat
  original_buyer :: user_id
  current_holder :: user_id
  tk_booking :: nat
  purchase_price :: money
  service_fee_paid :: money
  tax_paid :: money
  total_paid :: money
  tk_currency :: string
  seat_number :: string
  row_number :: string
  seat_section :: string
  tk_status :: ticket_status
  is_checked_in :: bool
  check_in_time :: "timestamp option"
  check_in_location :: string
  checked_in_by :: "user_id option"
  holder_name :: string
  holder_email :: string
  holder_phone :: string
  tk_expires_at :: "timestamp option"

record event =
  start_date :: timestamp
  end_date :: timestamp

section \<open>Payments and refunds\<close>

datatype payment_state =
  Pay_pending | Pay_processing | Pay_completed | Pay_failed | Pay_cancelled | Pay_refunded
  | Pay_partially_refunded | Pay_disputed | Pay_expired

record payment =
  p_user :: user_id
  amount :: money
  p_currency :: string
  p_status :: payment_state
  payment_date :: "timestamp option"
  gateway_transaction_id :: string
  gateway_response :: json_object
  gateway_callback_received :: bool
  gateway_fee :: money
  platform_fee :: money
  net_amount :: "money option"
  retry_count :: int
  max_retries :: int
  last_retry_at :: "timestamp option"
  failure_reason :: string
  failure_code :: string
  p_expires_at :: "timestamp option"

datatype refund_status = Rf_pending | Rf_processing | Rf_completed | Rf_failed | Rf_cancelled

record refund =
  refund_amount :: money
  rf_currency :: string
  rf_reason :: string
  rf_status :: refund_status
  processing_fee :: money
  net_refund_amount :: "money option"
  refunded_to_user :: user_id
  gateway_refund_id :: string
  rf_gateway_fee :: money
  approved_by :: "user_id option"
  approved_at :: "timestamp option"
  approval_notes :: string
  completed_at :: "timestamp option"

section \<open>The object store\<close>

text \<open>
  One booking with its payment (a one-to-one relation), the rows of the booking item,
  ticket and refund tables, and the ticket types by primary key. A foreign key always
  resolves, so the ticket types are a total function of the key.
\<close>

record db =
  db_booking :: booking
  db_payment :: payment
  db_items :: "booking_item list"
  db_tickets :: "ticket list"
  db_ticket_types :: "nat \<Rightarrow> ticket_type"
  db_refunds :: "refund list"

section \<open>Booking life cycle\<close>

text \<open>\<^verbatim>\<open>Booking.save\<close> fills in the expiry of a pending booking that has none.\<close>

definition booking_save :: "timestamp \<Rightarrow> booking \<Rightarrow> booking" where
  "booking_save now b =
     (if booking_expires_at b = None \<and> status b = Bk_pending
      then b\<lparr>booking_expires_at := Some (now + timedelta_minutes 15)\<rparr>
      else b)"

definition items_of :: "db \<Rightarrow> booking_item list" where
  "items_of s = filter (\<lambda>i. item_booking i = booking_id (db_booking s)) (db_items s)"

definition tickets_of :: "db \<Rightarrow> ticket list" where
  "tickets_of s = filter (\<lambda>t. tk_booking t = booking_id (db_booking s)) (db_tickets s)"

definition confirm_booking :: "timestamp \<Rightarrow> db \<Rightarrow> bool \<times> db" where
  "confirm_booking now s =
     (let b = db_booking s in
      if status b = Bk_pending
      then (True, s\<lparr>db_booking :=
              booking_save now (b\<lparr>status := Bk_confirmed, confirmed_at := Some now\<rparr>)\<rparr>)
      else (False, s))"

definition cancel_booking :: "timestamp \<Rightarrow> string \<Rightarrow> user_id option \<Rightarrow> db \<Rightarrow> bool \<times> db" where
  "cancel_booking now reason by s =
     (let b = db_booking s in
      if status b \<in> {Bk_pending, Bk_confirmed, Bk_paid}
      then (True, s\<lparr>db_booking :=
              booking_save now (b\<lparr>status := Bk_cancelled, cancelled_at := Some now,
                                  cancellation_reason := reason, cancelled_by := by\<rparr>),
            db_tickets :=
              map (\<lambda>t. if tk_booking t = booking_id b then t\<lparr>tk_status := Tk_cancelled\<rparr> else t)
                (db_tickets s)\<rparr>)
      else (False, s))"

definition mark_as_paid :: "timestamp \<Rightarrow> db \<Rightarrow> bool \<times> db" where
  "mark_as_paid now s =
     (let b = db_booking s in
      if payment_status b \<in> {Bp_pending, Bp_processing}
      then (True, s\<lparr>db_booking :=
              booking_save now (b\<lparr>payment_status := Bp_paid, status := Bk_paid\<rparr>)\<rparr>)
      else (False, s))"

fun release_items :: "booking_item list \<Rightarrow> (nat \<Rightarrow> ticket_type) \<Rightarrow> (nat \<Rightarrow> ticket_type)" where
  "release_items [] tts = tts"
| "release_items (it # its) tts =
     release_items its
       (tts(item_ticket_type it :=
              release_reservation (tts (item_ticket_type it)) (item_quantity it)))"

definition expire_booking :: "timestamp \<Rightarrow> db \<Rightarrow> bool \<times> db" where
  "expire_booking now s =
     (let b = db_booking s in
      if status b = Bk_pending \<and> payment_status b = Bp_pending
      then (True, s\<lparr>db_booking := booking_save now (b\<lparr>status := Bk_expired\<rparr>),
                     db_ticket_types := release_items (items_of s) (db_ticket_types s)\<rparr>)
      else (False, s))"

section \<open>Payment life cycle\<close>

definition total_fees :: "payment \<Rightarrow> money" where
  "total_fees p = gateway_fee p + platform_fee p"

definition payment_save :: "timestamp \<Rightarrow> payment \<Rightarrow> payment" where
  "payment_save now p =
     (let p1 = (if net_amount p = None \<or> net_amount p = Some 0
                then p\<lparr>net_amount := Some (amount p - total_fees p)\<rparr> else p)
      in if p_expires_at p1 = None \<and> p_status p1 = Pay_pending
         then p1\<lparr>p_expires_at := Some (now + timedelta_minutes 30)\<rparr>
         else p1)"

definition is_pending :: "payment \<Rightarrow> bool" where
  "is_pending p \<longleftrightarrow> p_status p \<in> {Pay_pending, Pay_processing}"

definition is_failed :: "payment \<Rightarrow> bool" where
  "is_failed p \<longleftrightarrow> p_status p \<in> {Pay_failed, Pay_cancelled, Pay_expired}"

definition can_retry :: "db \<Rightarrow> bool" where
  "can_retry s \<longleftrightarrow>
     is_failed (db_payment s) \<and> retry_count (db_payment s) < max_retries (db_payment s) \<and>
     status (db_booking s) = Bk_pending"

text \<open>An optional argument is used when it is given and not empty (Python truthiness).\<close>

definition given :: "'a list option \<Rightarrow> bool" where
  "given x \<longleftrightarrow> (case x of None \<Rightarrow> False | Some v \<Rightarrow> v \<noteq> [])"

definition mark_completed ::
  "timestamp \<Rightarrow> string option \<Rightarrow> json_object option \<Rightarrow> db \<Rightarrow> bool \<times> db" where
  "mark_completed now gateway_txn gateway_resp s =
     (let p = db_payment s in
      if p_status p \<in> {Pay_pending, Pay_processing} then
        let p1 = p\<lparr>p_status := Pay_completed, payment_date := Some now\<rparr>;
            p2 = (if given gateway_txn then p1\<lparr>gateway_transaction_id := the gateway_txn\<rparr>
                  else p1);
            p3 = (if given gateway_resp
                  then p2\<lparr>gateway_response := the gateway_resp,
                          gateway_callback_received := True\<rparr>
                  else p2);
            s1 = s\<lparr>db_payment := payment_save now p3\<rparr>
        in (True, snd (mark_as_paid now s1))
      else (False, s))"

definition mark_failed :: "timestamp \<Rightarrow> string \<Rightarrow> string \<Rightarrow> db \<Rightarrow> bool \<times> db" where
  "mark_failed now reason code s =
     (let p = db_payment s in
      if p_status p \<in> {Pay_pending, Pay_processing}
      then (True, s\<lparr>db_payment :=
              payment_save now (p\<lparr>p_status := Pay_failed, failure_reason := reason,
                                  failure_code := code\<rparr>)\<rparr>)
      else (False, s))"

definition retry_payment :: "timestamp \<Rightarrow> db \<Rightarrow> bool \<times> db" where
  "retry_payment now s =
     (let p = db_payment s in
      if can_retry s
      then (True, s\<lparr>db_payment :=
              payment_save now (p\<lparr>p_status := Pay_pending, retry_count := retry_count p + 1,
                                  last_retry_at := Some now, failure_reason := [],
                                  failure_code := []\<rparr>)\<rparr>)
      else (False, s))"

section \<open>Refunds\<close>

definition refund_save :: "refund \<Rightarrow> refund" where
  "refund_save r =
     (if net_refund_amount r = None \<or> net_refund_amount r = Some 0
      then r\<lparr>net_refund_amount := Some (refund_amount r - processing_fee r - rf_gateway_fee r)\<rparr>
      else r)"

text \<open>\<^verbatim>\<open>refund_amount or self.amount\<close>: an amount that is absent or zero stands for the
  whole payment.\<close>

definition effective_amount :: "money option \<Rightarrow> payment \<Rightarrow> money" where
  "effective_amount a p =
     (case a of None \<Rightarrow> amount p | Some x \<Rightarrow> if x \<noteq> 0 then x else amount p)"

definition process_refund :: "money option \<Rightarrow> string \<Rightarrow> db \<Rightarrow> refund option \<times> db" where
  "process_refund a reason s =
     (let p = db_payment s in
      if p_status p = Pay_completed then
        let r = refund_save
                  \<lparr>refund_amount = effective_amount a p, rf_currency = p_currency p,
                   rf_reason = reason, rf_status = Rf_pending, processing_fee = 0,
                   net_refund_amount = None, refunded_to_user = p_user p,
                   gateway_refund_id = [], rf_gateway_fee = 0, approved_by = None,
                   approved_at = None, approval_notes = [], completed_at = None\<rparr>
        in (Some r, s\<lparr>db_refunds := db_refunds s @ [r]\<rparr>)
      else (None, s))"

definition is_approved :: "refund \<Rightarrow> bool" where
  "is_approved r \<longleftrightarrow> approved_at r \<noteq> None"

definition is_completed :: "refund \<Rightarrow> bool" where
  "is_completed r \<longleftrightarrow> rf_status r = Rf_completed"

definition approve :: "timestamp \<Rightarrow> user_id option \<Rightarrow> string \<Rightarrow> refund \<Rightarrow> bool \<times> refund" where
  "approve now by notes r =
     (if \<not> is_approved r \<and> rf_status r = Rf_pending
      then (True, refund_save (r\<lparr>approved_by := by, approved_at := Some now,
                                 approval_notes := notes, rf_status := Rf_processing\<rparr>))
      else (False, r))"

text \<open>\<^verbatim>\<open>complete_refund\<close> also writes the status of the refund's payment.\<close>

definition complete_refund ::
  "timestamp \<Rightarrow> string option \<Rightarrow> refund \<Rightarrow> payment \<Rightarrow> bool \<times> refund \<times> payment" where
  "complete_refund now gateway_id r p =
     (if rf_status r = Rf_processing then
        let r1 = r\<lparr>rf_status := Rf_completed, completed_at := Some now\<rparr>;
            r2 = (if given gateway_id then r1\<lparr>gateway_refund_id := the gateway_id\<rparr> else r1);
            p1 = (if amount p \<le> refund_amount r2 then p\<lparr>p_status := Pay_refunded\<rparr>
                  else p\<lparr>p_status := Pay_partially_refunded\<rparr>)
        in (True, refund_save r2, payment_save now p1)
      else (False, r, p))"

text \<open>
  A sequence of refund operations on one payment. A refund of the payment is addressed
  by its position in the table; an operation addressed to a refund that does not exist
  cannot be called and leaves the store as it is.
\<close>

datatype refund_op =
  Process_refund "money option" string
  | Approve nat "user_id option" string
  | Complete_refund nat "string option"

fun refund_step :: "timestamp \<times> refund_op \<Rightarrow> db \<Rightarrow> db" where
  "refund_step (now, Process_refund a reason) s = snd (process_refund a reason s)"
| "refund_step (now, Approve i by notes) s =
     (if i < length (db_refunds s)
      then s\<lparr>db_refunds := (db_refunds s)[i := snd (approve now by notes (db_refunds s ! i))]\<rparr>
      else s)"
| "refund_step (now, Complete_refund i gateway_id) s =
     (if i < length (db_refunds s)
      then case complete_refund now gateway_id (db_refunds s ! i) (db_payment s) of
             (ok, r, p) \<Rightarrow> s\<lparr>db_refunds := (db_refunds s)[i := r], db_payment := p\<rparr>
      else s)"

fun refund_run :: "(timestamp \<times> refund_op) list \<Rightarrow> db \<Rightarrow> db" where
  "refund_run [] s = s"
| "refund_run (x # xs) s = refund_run xs (refund_step x s)"

definition completed_total :: "db \<Rightarrow> money" where
  "completed_total s = sum_list (map refund_amount (filter is_completed (db_refunds s)))"

text \<open>The amounts that the \<^verbatim>\<open>process_refund\<close> calls of a sequence ask for.\<close>

fun requested_of :: "payment \<Rightarrow> timestamp \<times> refund_op \<Rightarrow> money list" where
  "requested_of p (now, Process_refund a reason) = [effective_amount a p]"
| "requested_of p (now, Approve i by notes) = []"
| "requested_of p (now, Complete_refund i gateway_id) = []"

definition requested :: "payment \<Rightarrow> (timestamp \<times> refund_op) list \<Rightarrow> money list" where
  "requested p ops = concat (map (requested_of p) ops)"

section \<open>Discount codes\<close>

datatype discount_type = Percentage | Fixed_amount | Free_shipping | Buy_one_get_one

record discount_code =
  discount_type :: discount_type
  discount_value :: money
  max_discount_amount :: "money option"

text \<open>\<^verbatim>\<open>if self.max_discount_amount:\<close> holds when the cap is present and not zero.\<close>

definition calculate_discount :: "discount_code \<Rightarrow> money \<Rightarrow> money" where
  "calculate_discount dc order_amount =
     (if discount_type dc = Percentage then
        let discount = (order_amount * discount_value dc) / 100
        in (case max_discount_amount dc of
              None \<Rightarrow> discount
            | Some m \<Rightarrow> if m \<noteq> 0 then min discount m else discount)
      else if discount_type dc = Fixed_amount then min (discount_value dc) order_amount
      else if discount_type dc = Free_shipping then 0
      else 0)"

section \<open>Check-in\<close>

definition is_valid :: "timestamp \<Rightarrow> ticket \<Rightarrow> bool" where
  "is_valid now t \<longleftrightarrow>
     tk_status t = Tk_active \<and> \<not> is_checked_in t \<and>
     (case tk_expires_at t of None \<Rightarrow> True | Some e \<Rightarrow> now \<le> e)"

definition check_in :: "timestamp \<Rightarrow> string \<Rightarrow> user_id option \<Rightarrow> ticket \<Rightarrow> bool \<times> ticket" where
  "check_in now location by t =
     (if is_valid now t \<and> \<not> is_checked_in t
      then (True, t\<lparr>is_checked_in := True, check_in_time := Some now,
                    check_in_location := location, checked_in_by := by,
                    tk_status := Tk_used\<rparr>)
      else (False, t))"

text \<open>
  \<^verbatim>\<open>TicketCheckInSerializer.validate\<close>, from the point where the ticket has been found by
  its code. Each \<^verbatim>\<open>ValidationError\<close> is a constructor, in the order of the messages in the
  source.
\<close>

datatype check_in_error =
  Invalid_ticket | Already_checked_in | Event_ended | Event_not_yet_open

definition validate_check_in :: "timestamp \<Rightarrow> event \<Rightarrow> ticket \<Rightarrow> check_in_error + unit" where
  "validate_check_in now ev t =
     (if \<not> is_valid now t then Inl Invalid_ticket
      else if is_checked_in t then Inl Already_checked_in
      else if end_date ev < now then Inl Event_ended
      else if now < start_date ev - timedelta_hours 2 then Inl Event_not_yet_open
      else Inr ())"

section \<open>Example states\<close>

definition booking_example :: booking where
  "booking_example =
     \<lparr>booking_id = 1, booking_event = 7, booking_user = 42, customer_email = ''ada@example.ug'',
      customer_phone = ''0700000000'', customer_first_name = ''Ada'',
      customer_last_name = ''Okello'', status = Bk_pending, payment_status = Bp_pending,
      booking_expires_at = Some 900000000, confirmed_at = None, cancelled_at = None,
      cancellation_reason = [], cancelled_by = None\<rparr>"

definition payment_example :: payment where
  "payment_example =
     \<lparr>p_user = 42, amount = 100, p_currency = ''UGX'', p_status = Pay_pending,
      payment_date = None, gateway_transaction_id = [], gateway_response = [],
      gateway_callback_received = False, gateway_fee = 0, platform_fee = 0,
      net_amount = Some 100, retry_count = 0, max_retries = 3, last_retry_at = None,
      failure_reason = [], failure_code = [], p_expires_at = Some 1800000000\<rparr>"

definition item_example :: booking_item where
  "item_example =
     \<lparr>item_booking = 1, item_ticket_type = 5, item_quantity = 2, unit_price = 50,
      service_fee_per_ticket = 0, tax_per_ticket = 0, item_currency = ''UGX'',
      assigned_seats =
        [[(''seat_number'', ''1''), (''row_number'', ''A''), (''section'', ''East'')],
         [(''seat_number'', ''2''), (''row_number'', ''A''), (''section'', ''East'')]]\<rparr>"

definition db_example :: db where
  "db_example =
     \<lparr>db_booking = booking_example, db_payment = payment_example, db_items = [item_example],
      db_tickets = [],
      db_ticket_types =
        (\<lambda>k. \<lparr>quantity = 10, sold_count = 0, reserved_count = 2, sale_status = On_sale\<rparr>),
      db_refunds = []\<rparr>"

text \<open>A payment of 100 that has been completed, and two refunds of 60 each.\<close>

definition db_completed :: db where
  "db_completed = db_example\<lparr>db_payment := payment_example\<lparr>p_status := Pay_completed\<rparr>\<rparr>"

definition refund_twice :: "(timestamp \<times> refund_op) list" where
  "refund_twice =
     [(1, Process_refund (Some 60) ''first''), (2, Process_refund (Some 60) ''second''),
      (3, Approve 0 (Some 9) []), (4, Approve (Suc 0) (Some 9) []),
      (5, Complete_refund 0 None), (6, Complete_refund (Suc 0) None)]"

definition refund_once :: "(timestamp \<times> refund_op) list" where
  "refund_once =
     [(1, Process_refund (Some 60) ''first''), (3, Approve 0 (Some 9) []),
      (5, Complete_refund 0 None)]"

text \<open>A payment that was cancelled, of a booking that is still pending.\<close>

definition db_cancelled_payment :: db where
  "db_cancelled_payment = db_example\<lparr>db_payment := payment_example\<lparr>p_status := Pay_cancelled\<rparr>\<rparr>"

definition ten_percent_capped :: discount_code where
  "ten_percent_capped =
     \<lparr>discount_type = Percentage, discount_value = 10, max_discount_amount = Some 5000\<rparr>"

definition ten_percent_zero_cap :: discount_code where
  "ten_percent_zero_cap =
     \<lparr>discount_type = Percentage, discount_value = 10, max_discount_amount = Some 0\<rparr>"

definition fixed_example :: discount_code where
  "fixed_example =
     \<lparr>discount_type = Fixed_amount, discount_value = 3000, max_discount_amount = None\<rparr>"

text \<open>An active ticket of the example booking, and an event that runs from hour 10 to
  hour 12.\<close>

definition ticket_example :: ticket where
  "ticket_example =
     \<lparr>tk_ticket_type = 5, tk_event = 7, original_buyer = 42, current_holder = 42,
      tk_booking = 1, purchase_price = 50, service_fee_paid = 0, tax_paid = 0,
      total_paid = 50, tk_currency = ''UGX'', seat_number = ''1'', row_number = ''A'',
      seat_section = ''East'', tk_status = Tk_active, is_checked_in = False,
      check_in_time = None, check_in_location = [], checked_in_by = None,
      holder_name = ''Ada Okello'', holder_email = ''ada@example.ug'',
      holder_phone = ''0700000000'', tk_expires_at = None\<rparr>"

definition event_example :: event where
  "event_example = \<lparr>start_date = timedelta_hours 10, end_date = timedelta_hours 12\<rparr>"

text \<open>The payment after a failure, and the booking after its expiry.\<close>

definition db_failed_payment :: db where
  "db_failed_payment = snd (mark_failed 3 ''declined'' ''E51'' db_example)"

definition db_expired_booking :: db where
  "db_expired_booking = snd (expire_booking 1000000000 db_failed_payment)"

text \<open>Bookkeeping for the refund table: the sum of all refund amounts, and their
  non-negativity.\<close>

definition refund_total :: "db \<Rightarrow> money" where
  "refund_total s = sum_list (map refund_amount (db_refunds s))"

definition amounts_nonneg :: "db \<Rightarrow> bool" where
  "amounts_nonneg s \<longleftrightarrow> (\<forall>a \<in> set (map refund_amount (db_refunds s)). 0 \<le> a)"

section \<open>Properties of the inventory ledger\<close>

lemma conserved_reserve_tickets:
  "conserved t \<Longrightarrow> conserved (snd (reserve_tickets t q))"
  by (auto simp: conserved_def reserve_tickets_def available_count_def)

lemma conserved_sell_tickets:
  "conserved t \<Longrightarrow> conserved (snd (sell_tickets t q))"
  by (auto simp: conserved_def sell_tickets_def available_count_def Let_def)

lemma conserved_release_reservation:
  "conserved t \<Longrightarrow> 0 \<le> reserved_count t \<Longrightarrow> 0 \<le> q \<Longrightarrow> conserved (release_reservation t q)"
  by (auto simp: conserved_def release_reservation_def)

lemma release_reservation_floor: "0 \<le> reserved_count (release_reservation t q)"
  by (simp add: release_reservation_def)

text \<open>The assumptions on the release step are needed: outside the range of the fields, a
  negative quantity would raise the reserved count.\<close>

lemma release_reservation_negative_quantity:
  "conserved tt_example \<and> \<not> conserved (release_reservation tt_example (- 4))"
  by (simp add: conserved_def release_reservation_def tt_example_def)

text \<open>
  Claim C1. From every state of a TicketType with
  \<open>sold_count + reserved_count \<le> quantity\<close>, each of the three ledger operations, for
  every requested quantity, leads to a state that satisfies the inequality again, and
  after a release the reserved count is not negative. The counters and the requested
  quantity are ticket counts (\<^verbatim>\<open>PositiveIntegerField\<close> in the source), hence the two
  non-negativity assumptions; only the release step depends on them.
\<close>

theorem inventory_conservation:
  assumes "conserved t" and "0 \<le> reserved_count t" and "0 \<le> q"
  shows "conserved (snd (reserve_tickets t q)) \<and>
         conserved (release_reservation t q) \<and>
         conserved (snd (sell_tickets t q)) \<and>
         0 \<le> reserved_count (release_reservation t q)"
  using assms conserved_reserve_tickets conserved_sell_tickets
    conserved_release_reservation release_reservation_floor
  by blast

theorem inventory_conservation_witness:
  "conserved tt_example \<and> 0 \<le> reserved_count tt_example \<and> (0::int) \<le> 5 \<and>
   conserved (snd (reserve_tickets tt_example 5)) \<and>
   conserved (release_reservation tt_example 5) \<and>
   conserved (snd (sell_tickets tt_example 5)) \<and>
   reserved_count (release_reservation tt_example 5) = 0 \<and>
   sold_count (snd (sell_tickets tt_example 5)) = 8"
proof -
  have h: "conserved tt_example" "0 \<le> reserved_count tt_example" "(0::int) \<le> 5"
    by (simp_all add: conserved_def tt_example_def)
  have "reserved_count (release_reservation tt_example 5) = 0"
    by (simp add: release_reservation_def tt_example_def)
  moreover have "sold_count (snd (sell_tickets tt_example 5)) = 8"
    by (simp add: sell_tickets_def available_count_def tt_example_def Let_def)
  ultimately show ?thesis
    using h inventory_conservation [OF h] by simp
qed

text \<open>
  Claim C5. \<^verbatim>\<open>reserve_tickets(q)\<close> reports success exactly when
  \<open>q \<le> available_count\<close>; on success the reserved count grows by exactly \<open>q\<close> and
  nothing else changes, and on failure (the \<^verbatim>\<open>False\<close> return, which the specification
  calls InsufficientInventory) the object is left as it was, so there is no partial
  reservation.
\<close>

theorem reserve_tickets_all_or_nothing:
  "(fst (reserve_tickets t q) \<longleftrightarrow> q \<le> available_count t) \<and>
   (q \<le> available_count t \<longrightarrow>
      snd (reserve_tickets t q) = t\<lparr>reserved_count := reserved_count t + q\<rparr>) \<and>
   (\<not> q \<le> available_count t \<longrightarrow> snd (reserve_tickets t q) = t)"
  by (simp add: reserve_tickets_def)

theorem reserve_tickets_all_or_nothing_witness:
  "(3::int) \<le> available_count tt_example \<and>
   reserve_tickets tt_example 3 = (True, tt_example\<lparr>reserved_count := 7\<rparr>) \<and>
   \<not> (4::int) \<le> available_count tt_example \<and>
   reserve_tickets tt_example 4 = (False, tt_example)"
proof -
  have a: "available_count tt_example = 3"
    by (simp add: available_count_def tt_example_def)
  have r: "reserved_count tt_example = 4"
    by (simp add: tt_example_def)
  show ?thesis
    using reserve_tickets_all_or_nothing [of tt_example 3]
      reserve_tickets_all_or_nothing [of tt_example 4] a r
    by (simp add: prod_eq_iff)
qed

section \<open>Properties of the booking life cycle\<close>

lemma booking_save_status: "status (booking_save now b) = status b"
  by (simp add: booking_save_def)

lemma booking_save_payment_status: "payment_status (booking_save now b) = payment_status b"
  by (simp add: booking_save_def)

lemma mark_as_paid_tickets: "db_tickets (snd (mark_as_paid now s)) = db_tickets s"
  by (simp add: mark_as_paid_def Let_def)

lemma mark_as_paid_payment: "db_payment (snd (mark_as_paid now s)) = db_payment s"
  by (simp add: mark_as_paid_def Let_def)

lemma mark_completed_tickets: "db_tickets (snd (mark_completed now g r s)) = db_tickets s"
  by (simp add: mark_completed_def Let_def mark_as_paid_tickets)

text \<open>The guard of \<^verbatim>\<open>mark_as_paid\<close> reads the payment status only.\<close>

lemma mark_as_paid_ignores_status:
  "payment_status (db_booking s) \<in> {Bp_pending, Bp_processing} \<Longrightarrow>
   fst (mark_as_paid now s) \<and> status (db_booking (snd (mark_as_paid now s))) = Bk_paid \<and>
   payment_status (db_booking (snd (mark_as_paid now s))) = Bp_paid"
  by (auto simp: mark_as_paid_def Let_def booking_save_def)

lemma mark_as_paid_refused:
  "payment_status (db_booking s) \<notin> {Bp_pending, Bp_processing} \<Longrightarrow>
   mark_as_paid now s = (False, s)"
  by (simp add: mark_as_paid_def Let_def)

text \<open>The three transitions that are guarded by the booking status refuse a booking in a
  terminal state and leave the store as it is.\<close>

lemma confirm_booking_terminal:
  "status (db_booking s) \<in> {Bk_cancelled, Bk_expired, Bk_refunded} \<Longrightarrow>
   confirm_booking now s = (False, s)"
  by (auto simp: confirm_booking_def Let_def)

lemma cancel_booking_terminal:
  "status (db_booking s) \<in> {Bk_cancelled, Bk_expired, Bk_refunded} \<Longrightarrow>
   cancel_booking now reason who s = (False, s)"
  by (auto simp: cancel_booking_def Let_def)

lemma expire_booking_terminal:
  "status (db_booking s) \<in> {Bk_cancelled, Bk_expired, Bk_refunded} \<Longrightarrow>
   expire_booking now s = (False, s)"
  by (auto simp: expire_booking_def Let_def)

lemma cancel_booking_ticket_types:
  "db_ticket_types (snd (cancel_booking now reason who s)) = db_ticket_types s"
  by (simp add: cancel_booking_def Let_def)

text \<open>
  Claim C2, as amended. \<^verbatim>\<open>mark_as_paid\<close> on a booking whose payment status is pending or
  processing succeeds and sets the payment status and the status to paid. It does not
  trigger ticket issuance: the ticket table after \<^verbatim>\<open>Booking.mark_as_paid\<close>, and after
  \<^verbatim>\<open>Payment.mark_completed\<close>, is the table before, so neither creates a ticket.
\<close>

theorem mark_as_paid_sets_paid_only:
  "(payment_status (db_booking s) \<in> {Bp_pending, Bp_processing} \<longrightarrow>
      fst (mark_as_paid now s) \<and>
      payment_status (db_booking (snd (mark_as_paid now s))) = Bp_paid \<and>
      status (db_booking (snd (mark_as_paid now s))) = Bk_paid) \<and>
   db_tickets (snd (mark_as_paid now s)) = db_tickets s \<and>
   db_tickets (snd (mark_completed now g r s)) = db_tickets s"
  using mark_as_paid_ignores_status [of s now] mark_as_paid_tickets [of now s]
    mark_completed_tickets [of now g r s]
  by blast

theorem mark_as_paid_sets_paid_only_witness:
  "payment_status (db_booking db_example) \<in> {Bp_pending, Bp_processing} \<and>
   fst (mark_as_paid 1 db_example) \<and>
   payment_status (db_booking (snd (mark_as_paid 1 db_example))) = Bp_paid \<and>
   status (db_booking (snd (mark_as_paid 1 db_example))) = Bk_paid \<and>
   db_tickets (snd (mark_as_paid 1 db_example)) = [] \<and>
   db_tickets (snd (mark_completed 1 None None db_example)) = []"
proof -
  have h: "payment_status (db_booking db_example) \<in> {Bp_pending, Bp_processing}"
    by (simp add: db_example_def booking_example_def)
  have e: "db_tickets db_example = []"
    by (simp add: db_example_def)
  show ?thesis
    using h e mark_as_paid_sets_paid_only [of db_example 1 None None]
    by simp
qed

text \<open>
  Claim C2 as stated fails: the example booking is pending with one item of quantity 2;
  \<^verbatim>\<open>mark_as_paid\<close> succeeds and the booking still has no ticket, and the same holds after
  \<^verbatim>\<open>Payment.mark_completed\<close>.
\<close>

theorem mark_as_paid_no_issuance_counterexample:
  "payment_status (db_booking db_example) = Bp_pending \<and>
   items_of db_example = [item_example] \<and> item_quantity item_example = 2 \<and>
   fst (mark_as_paid 1 db_example) \<and>
   tickets_of (snd (mark_as_paid 1 db_example)) = [] \<and>
   tickets_of (snd (mark_completed 1 None None db_example)) = []"
  by (simp add: tickets_of_def mark_as_paid_tickets mark_completed_tickets)
    (simp add: mark_as_paid_def Let_def db_example_def booking_example_def items_of_def
      item_example_def)

text \<open>
  Claim C3 says that no life-cycle operation moves a booking out of cancelled, expired
  or refunded. \<^verbatim>\<open>confirm_booking\<close>, \<^verbatim>\<open>cancel_booking\<close> and \<^verbatim>\<open>expire_booking\<close> obey
  (lemmas \<open>confirm_booking_terminal\<close>, \<open>cancel_booking_terminal\<close>,
  \<open>expire_booking_terminal\<close>), but \<^verbatim>\<open>mark_as_paid\<close> does not look at the status. The
  example booking is expired by \<^verbatim>\<open>expire_booking\<close>, which leaves its payment status
  pending; \<^verbatim>\<open>mark_as_paid\<close> then succeeds and the expired booking becomes paid.
\<close>

theorem mark_as_paid_leaves_expired:
  "fst (expire_booking 1000000000 db_example) \<and>
   status (db_booking (snd (expire_booking 1000000000 db_example))) = Bk_expired \<and>
   payment_status (db_booking (snd (expire_booking 1000000000 db_example))) = Bp_pending \<and>
   fst (mark_as_paid 1000000001 (snd (expire_booking 1000000000 db_example))) \<and>
   status (db_booking (snd (mark_as_paid 1000000001 (snd (expire_booking 1000000000 db_example)))))
     = Bk_paid"
  by (simp add: expire_booking_def mark_as_paid_def Let_def booking_save_def db_example_def
      booking_example_def)

text \<open>
  Claim C4 says that cancelling a booking releases the reserved inventory of its items.
  \<^verbatim>\<open>cancel_booking\<close> never writes a ticket type (lemma \<open>cancel_booking_ticket_types\<close>).
  The example booking is pending and holds 2 reserved tickets of ticket type 5:
  cancelling succeeds and the reserved count is still 2, whereas \<^verbatim>\<open>expire_booking\<close> on
  the same booking brings it to 0.
\<close>

theorem cancel_booking_keeps_reservation:
  "status (db_booking db_example) = Bk_pending \<and>
   items_of db_example = [item_example] \<and> item_quantity item_example = 2 \<and>
   reserved_count (db_ticket_types db_example 5) = 2 \<and>
   fst (cancel_booking 1 ''changed plans'' (Some 42) db_example) \<and>
   status (db_booking (snd (cancel_booking 1 ''changed plans'' (Some 42) db_example)))
     = Bk_cancelled \<and>
   reserved_count
     (db_ticket_types (snd (cancel_booking 1 ''changed plans'' (Some 42) db_example)) 5) = 2 \<and>
   reserved_count (db_ticket_types (snd (expire_booking 1 db_example)) 5) = 0"
  by (simp add: cancel_booking_def expire_booking_def Let_def booking_save_def db_example_def
      booking_example_def items_of_def item_example_def release_reservation_def)

section \<open>Properties of the payment life cycle\<close>

lemma payment_save_status: "p_status (payment_save now p) = p_status p"
  by (simp add: payment_save_def Let_def)

lemma payment_save_amount: "amount (payment_save now p) = amount p"
  by (simp add: payment_save_def Let_def)

lemma mark_completed_status:
  "p_status (db_payment s) \<in> {Pay_pending, Pay_processing} \<Longrightarrow>
   p_status (db_payment (snd (mark_completed now g r s))) = Pay_completed"
  by (simp add: mark_completed_def Let_def mark_as_paid_payment payment_save_status)

lemma mark_completed_refused:
  "p_status (db_payment s) = Pay_completed \<Longrightarrow> mark_completed now g r s = (False, s)"
  by (simp add: mark_completed_def Let_def)

text \<open>
  Claim C7. A first \<^verbatim>\<open>mark_completed\<close> on a payment that is pending or processing
  succeeds and sets the status to completed. A second call, whatever its arguments,
  returns failure and leaves the whole store as it is: the status stays completed, no
  field of the payment or of the booking changes, and the ticket table is the same.
\<close>

theorem mark_completed_idempotent:
  assumes "p_status (db_payment s) \<in> {Pay_pending, Pay_processing}"
  shows "fst (mark_completed now g r s) \<and>
         p_status (db_payment (snd (mark_completed now g r s))) = Pay_completed \<and>
         mark_completed now' g' r' (snd (mark_completed now g r s)) =
           (False, snd (mark_completed now g r s))"
proof -
  have "fst (mark_completed now g r s)"
    using assms by (simp add: mark_completed_def Let_def)
  moreover have c: "p_status (db_payment (snd (mark_completed now g r s))) = Pay_completed"
    using assms by (rule mark_completed_status)
  moreover have "mark_completed now' g' r' (snd (mark_completed now g r s)) =
      (False, snd (mark_completed now g r s))"
    using c by (rule mark_completed_refused)
  ultimately show ?thesis by simp
qed

theorem mark_completed_idempotent_witness:
  "p_status (db_payment db_example) \<in> {Pay_pending, Pay_processing} \<and>
   fst (mark_completed 5 (Some ''GW-1'') None db_example) \<and>
   p_status (db_payment (snd (mark_completed 5 (Some ''GW-1'') None db_example)))
     = Pay_completed \<and>
   status (db_booking (snd (mark_completed 5 (Some ''GW-1'') None db_example))) = Bk_paid \<and>
   db_tickets (snd (mark_completed 5 (Some ''GW-1'') None db_example)) = [] \<and>
   mark_completed 6 (Some ''GW-1'') None (snd (mark_completed 5 (Some ''GW-1'') None db_example))
     = (False, snd (mark_completed 5 (Some ''GW-1'') None db_example))"
proof -
  have h: "p_status (db_payment db_example) \<in> {Pay_pending, Pay_processing}"
    by (simp add: db_example_def payment_example_def)
  have b: "status (db_booking (snd (mark_completed 5 (Some ''GW-1'') None db_example))) = Bk_paid"
    by (simp add: mark_completed_def mark_as_paid_def Let_def db_example_def
        payment_example_def booking_example_def booking_save_def)
  have t: "db_tickets (snd (mark_completed 5 (Some ''GW-1'') None db_example)) = []"
    by (simp add: mark_completed_tickets db_example_def)
  show ?thesis
    using h b t
      mark_completed_idempotent [OF h, of 5 "Some ''GW-1''" None 6 "Some ''GW-1''" None]
    by simp
qed

text \<open>
  Claim C8, as amended. \<^verbatim>\<open>retry_payment\<close> succeeds if and only if the payment's status
  is failed, cancelled or expired, its retry count is below the maximum, and the status
  of its booking is pending. On success the status is pending again and the retry count
  is one more; in every other case, a payment whose booking has expired included, it
  fails and changes nothing.
\<close>

theorem retry_payment_iff_can_retry:
  "(fst (retry_payment now s) \<longleftrightarrow>
      p_status (db_payment s) \<in> {Pay_failed, Pay_cancelled, Pay_expired} \<and>
      retry_count (db_payment s) < max_retries (db_payment s) \<and>
      status (db_booking s) = Bk_pending) \<and>
   (fst (retry_payment now s) \<longrightarrow>
      p_status (db_payment (snd (retry_payment now s))) = Pay_pending \<and>
      retry_count (db_payment (snd (retry_payment now s))) = retry_count (db_payment s) + 1) \<and>
   (\<not> fst (retry_payment now s) \<longrightarrow> snd (retry_payment now s) = s)"
  by (simp add: retry_payment_def can_retry_def is_failed_def Let_def payment_save_def)

theorem retry_payment_iff_can_retry_witness:
  "p_status (db_payment db_failed_payment) = Pay_failed \<and>
   fst (retry_payment 9 db_failed_payment) \<and>
   p_status (db_payment (snd (retry_payment 9 db_failed_payment))) = Pay_pending \<and>
   retry_count (db_payment (snd (retry_payment 9 db_failed_payment))) = 1 \<and>
   \<not> fst (retry_payment 9 db_expired_booking) \<and>
   snd (retry_payment 9 db_expired_booking) = db_expired_booking"
proof -
  have f: "p_status (db_payment db_failed_payment) = Pay_failed"
    "retry_count (db_payment db_failed_payment) = 0"
    "max_retries (db_payment db_failed_payment) = 3"
    "status (db_booking db_failed_payment) = Bk_pending"
    by (simp_all add: db_failed_payment_def mark_failed_def Let_def payment_save_def
        db_example_def payment_example_def booking_example_def)
  have e: "status (db_booking db_expired_booking) = Bk_expired"
    by (simp add: db_expired_booking_def expire_booking_def Let_def booking_save_def
        db_failed_payment_def mark_failed_def db_example_def payment_example_def
        booking_example_def)
  show ?thesis
    using f e retry_payment_iff_can_retry [of 9 db_failed_payment]
      retry_payment_iff_can_retry [of 9 db_expired_booking]
    by simp
qed

text \<open>
  Claim C8 as stated fails: a payment that was cancelled, with no retry used and a
  pending booking, is retried with success and is pending afterwards.
\<close>

theorem retry_payment_cancelled_counterexample:
  "p_status (db_payment db_cancelled_payment) = Pay_cancelled \<and>
   fst (retry_payment 9 db_cancelled_payment) \<and>
   p_status (db_payment (snd (retry_payment 9 db_cancelled_payment))) = Pay_pending \<and>
   retry_count (db_payment (snd (retry_payment 9 db_cancelled_payment))) = 1 \<and>
   snd (retry_payment 9 db_cancelled_payment) \<noteq> db_cancelled_payment"
proof -
  have "p_status (db_payment (snd (retry_payment 9 db_cancelled_payment))) = Pay_pending"
    by (simp add: retry_payment_def can_retry_def is_failed_def Let_def payment_save_status
        db_cancelled_payment_def db_example_def payment_example_def booking_example_def)
  moreover have "p_status (db_payment db_cancelled_payment) = Pay_cancelled"
    by (simp add: db_cancelled_payment_def)
  moreover have "fst (retry_payment 9 db_cancelled_payment)"
    by (simp add: retry_payment_def can_retry_def is_failed_def Let_def
        db_cancelled_payment_def db_example_def payment_example_def booking_example_def)
  moreover have "retry_count (db_payment (snd (retry_payment 9 db_cancelled_payment))) = 1"
    by (simp add: retry_payment_def can_retry_def is_failed_def Let_def payment_save_def
        db_cancelled_payment_def db_example_def payment_example_def booking_example_def)
  ultimately show ?thesis by auto
qed

section \<open>Properties of refunds\<close>

lemma refund_save_amount: "refund_amount (refund_save r) = refund_amount r"
  by (simp add: refund_save_def)

lemma approve_amount: "refund_amount (snd (approve now who memo r)) = refund_amount r"
  by (simp add: approve_def refund_save_amount)

lemma complete_refund_refund_amount:
  "refund_amount (fst (snd (complete_refund now g r p))) = refund_amount r"
  by (simp add: complete_refund_def Let_def refund_save_amount)

lemma complete_refund_payment_amount:
  "amount (snd (snd (complete_refund now g r p))) = amount p"
  by (simp add: complete_refund_def Let_def payment_save_amount)

lemma effective_amount_cong:
  "amount p' = amount p \<Longrightarrow> effective_amount a p' = effective_amount a p"
  by (simp add: effective_amount_def split: option.splits)

lemma requested_of_cong:
  assumes "amount p' = amount p"
  shows "requested_of p' x = requested_of p x"
proof (cases x)
  case (Pair now op)
  then show ?thesis
    using effective_amount_cong [OF assms] by (cases op) simp_all
qed

lemma requested_cong:
  assumes "amount p' = amount p"
  shows "requested p' ops = requested p ops"
proof -
  have "requested_of p' = requested_of p"
    by (rule ext) (rule requested_of_cong [OF assms])
  then show ?thesis by (simp add: requested_def)
qed

lemma requested_Cons: "requested p (x # xs) = requested_of p x @ requested p xs"
  by (simp add: requested_def)

lemma requested_append: "requested p (xs @ ys) = requested p xs @ requested p ys"
  by (simp add: requested_def)

lemma map_list_update_same:
  "i < length xs \<Longrightarrow> f y = f (xs ! i) \<Longrightarrow> map f (xs[i := y]) = map f xs"
  by (simp add: map_update list_update_same_conv)

text \<open>One step leaves the amount of the payment alone, and changes the amounts in the
  refund table only by appending the amount that a \<^verbatim>\<open>process_refund\<close> on a completed
  payment asks for.\<close>

lemma refund_step_amount: "amount (db_payment (refund_step x s)) = amount (db_payment s)"
  by (cases "(x, s)" rule: refund_step.cases)
    (simp_all add: process_refund_def Let_def case_prod_beta complete_refund_payment_amount)

lemma refund_step_amounts:
  "map refund_amount (db_refunds (refund_step x s)) =
     map refund_amount (db_refunds s) @
       (if p_status (db_payment s) = Pay_completed then requested_of (db_payment s) x else [])"
  by (cases "(x, s)" rule: refund_step.cases)
    (simp_all add: process_refund_def Let_def case_prod_beta refund_save_amount
       map_list_update_same approve_amount complete_refund_refund_amount)

lemma refund_step_invariant:
  assumes "amounts_nonneg s" and "\<forall>a \<in> set (requested_of (db_payment s) x). 0 \<le> a"
  shows "amounts_nonneg (refund_step x s) \<and>
         refund_total (refund_step x s)
           \<le> refund_total s + sum_list (requested_of (db_payment s) x)"
proof -
  let ?old = "map refund_amount (db_refunds s)"
  let ?new = "map refund_amount (db_refunds (refund_step x s))"
  let ?req = "requested_of (db_payment s) x"
  have o: "\<forall>a \<in> set ?old. 0 \<le> a"
    using assms(1) by (simp only: amounts_nonneg_def)
  have nn: "0 \<le> sum_list ?req"
    using assms(2) by (simp add: sum_list_nonneg)
  have "(\<forall>a \<in> set ?new. 0 \<le> a) \<and> sum_list ?new \<le> sum_list ?old + sum_list ?req"
  proof (cases "p_status (db_payment s) = Pay_completed")
    case True
    then have "?new = ?old @ ?req" by (simp add: refund_step_amounts)
    then show ?thesis using o assms(2) by auto
  next
    case False
    then have "?new = ?old" by (simp add: refund_step_amounts)
    then show ?thesis using o nn by simp
  qed
  then show ?thesis
    unfolding amounts_nonneg_def refund_total_def by blast
qed

lemma refund_run_amount: "amount (db_payment (refund_run ops s)) = amount (db_payment s)"
  by (induction ops arbitrary: s) (simp_all add: refund_step_amount)

lemma refund_run_invariant:
  "amounts_nonneg s \<Longrightarrow> \<forall>a \<in> set (requested (db_payment s) ops). 0 \<le> a \<Longrightarrow>
   amounts_nonneg (refund_run ops s) \<and>
   refund_total (refund_run ops s) \<le> refund_total s + sum_list (requested (db_payment s) ops)"
proof (induction ops arbitrary: s)
  case Nil
  then show ?case by (simp add: requested_def)
next
  case (Cons x xs)
  let ?s1 = "refund_step x s"
  let ?p = "db_payment s"
  have r: "requested (db_payment ?s1) xs = requested ?p xs"
    by (rule requested_cong) (rule refund_step_amount)
  have x: "\<forall>a \<in> set (requested_of ?p x). 0 \<le> a"
    using Cons.prems(2) by (simp add: requested_Cons)
  have xs: "\<forall>a \<in> set (requested (db_payment ?s1) xs). 0 \<le> a"
    using Cons.prems(2) by (simp add: requested_Cons r)
  from refund_step_invariant [OF Cons.prems(1) x]
  have s1: "amounts_nonneg ?s1"
    and t1: "refund_total ?s1 \<le> refund_total s + sum_list (requested_of ?p x)"
    by simp_all
  from Cons.IH [OF s1 xs]
  have a: "amounts_nonneg (refund_run xs ?s1)"
    and t: "refund_total (refund_run xs ?s1) \<le> refund_total ?s1 + sum_list (requested ?p xs)"
    by (simp_all add: r)
  have "sum_list (requested ?p (x # xs))
          = sum_list (requested_of ?p x) + sum_list (requested ?p xs)"
    by (simp add: requested_Cons)
  with a t t1 show ?case by simp
qed

lemma filter_sum_le:
  "\<forall>a \<in> set (map f xs). (0::rat) \<le> a \<Longrightarrow>
   sum_list (map f (filter P xs)) \<le> sum_list (map f xs)"
  by (induction xs) (auto intro: add_increasing)

lemma completed_le_total: "amounts_nonneg s \<Longrightarrow> completed_total s \<le> refund_total s"
  unfolding amounts_nonneg_def completed_total_def refund_total_def by (rule filter_sum_le)

lemma requested_take_le:
  assumes "\<forall>a \<in> set (requested p ops). (0::rat) \<le> a"
  shows "sum_list (requested p (take n ops)) \<le> sum_list (requested p ops)"
proof -
  have "requested p ops = requested p (take n ops) @ requested p (drop n ops)"
    by (simp add: requested_append [symmetric])
  moreover from this assms have "0 \<le> sum_list (requested p (drop n ops))"
    by (intro sum_list_nonneg) (metis Un_iff set_append)
  ultimately show ?thesis by simp
qed

lemma requested_take_nonneg:
  assumes "\<forall>a \<in> set (requested p ops). (0::rat) \<le> a"
  shows "\<forall>a \<in> set (requested p (take n ops)). 0 \<le> a"
proof -
  have "requested p ops = requested p (take n ops) @ requested p (drop n ops)"
    by (simp add: requested_append [symmetric])
  with assms show ?thesis by (metis Un_iff set_append)
qed

text \<open>
  Claim C6, as amended. The refund operations enforce no bound of their own. For a
  payment without refunds and every sequence of \<^verbatim>\<open>process_refund\<close>, \<^verbatim>\<open>approve\<close> and
  \<^verbatim>\<open>complete_refund\<close> operations in which the amounts asked for (the whole payment when
  no amount or zero is given) are not negative and sum to at most the amount of the
  payment, the sum of the completed refunds is at most that amount after every prefix
  of the sequence.
\<close>

theorem completed_refunds_bounded_by_requests:
  assumes "db_refunds s = []"
    and "\<forall>a \<in> set (requested (db_payment s) ops). 0 \<le> a"
    and "sum_list (requested (db_payment s) ops) \<le> amount (db_payment s)"
  shows "completed_total (refund_run (take n ops) s) \<le> amount (db_payment s)"
proof -
  let ?pre = "take n ops"
  have n: "amounts_nonneg s" and z: "refund_total s = 0"
    using assms(1) by (simp_all add: amounts_nonneg_def refund_total_def)
  have p: "\<forall>a \<in> set (requested (db_payment s) ?pre). 0 \<le> a"
    using assms(2) by (rule requested_take_nonneg)
  have q: "sum_list (requested (db_payment s) ?pre) \<le> amount (db_payment s)"
    using requested_take_le [OF assms(2), of n] assms(3) by simp
  from refund_run_invariant [OF n p] z
  have "amounts_nonneg (refund_run ?pre s)"
    and "refund_total (refund_run ?pre s) \<le> sum_list (requested (db_payment s) ?pre)"
    by simp_all
  with completed_le_total [of "refund_run ?pre s"] q show ?thesis
    by simp
qed

lemmas refund_example_defs =
  db_completed_def db_example_def payment_example_def process_refund_def approve_def
  complete_refund_def refund_save_def payment_save_def is_approved_def is_completed_def
  given_def effective_amount_def completed_total_def

theorem completed_refunds_bounded_by_requests_witness:
  "db_refunds db_completed = [] \<and>
   requested (db_payment db_completed) refund_once = [60] \<and>
   amount (db_payment db_completed) = 100 \<and>
   completed_total (refund_run refund_once db_completed) = 60 \<and>
   completed_total (refund_run (take 3 refund_once) db_completed) \<le> 100"
proof -
  have e: "db_refunds db_completed = []" "amount (db_payment db_completed) = 100"
    by (simp_all add: db_completed_def db_example_def payment_example_def)
  have r: "requested (db_payment db_completed) refund_once = [60]"
    by (simp add: requested_def refund_once_def effective_amount_def)
  have c: "completed_total (refund_run refund_once db_completed) = 60"
    by (simp add: refund_once_def refund_example_defs Let_def)
  have h2: "\<forall>a \<in> set (requested (db_payment db_completed) refund_once). 0 \<le> a"
    by (simp add: r)
  have h3: "sum_list (requested (db_payment db_completed) refund_once)
              \<le> amount (db_payment db_completed)"
    by (simp add: r e)
  show ?thesis
    using e r c completed_refunds_bounded_by_requests [OF e(1) h2 h3, of 3]
    by simp
qed

text \<open>
  Claim C6 as stated fails: on a completed payment of 100, two refunds of 60 are
  created, approved and completed, and the completed refunds sum to 120.
\<close>

theorem refund_twice_counterexample:
  "p_status (db_payment db_completed) = Pay_completed \<and>
   amount (db_payment db_completed) = 100 \<and> db_refunds db_completed = [] \<and>
   completed_total (refund_run refund_twice db_completed) = 120 \<and>
   amount (db_payment (refund_run refund_twice db_completed)) = 100 \<and>
   \<not> completed_total (refund_run refund_twice db_completed)
       \<le> amount (db_payment (refund_run refund_twice db_completed))"
proof -
  have c: "completed_total (refund_run refund_twice db_completed) = 120"
    by (simp add: refund_twice_def refund_example_defs Let_def)
  have a: "amount (db_payment db_completed) = 100"
    "p_status (db_payment db_completed) = Pay_completed" "db_refunds db_completed = []"
    by (simp_all add: db_completed_def db_example_def payment_example_def)
  show ?thesis
    by (simp add: c a refund_run_amount)
qed

section \<open>Properties of discount codes\<close>

text \<open>
  Claim C9, as amended. For every order amount, a fixed-amount code never gives more
  than the amount, and a percentage code whose \<^verbatim>\<open>max_discount_amount\<close> is set and is not
  zero never gives more than \<^verbatim>\<open>max_discount_amount\<close>; for an amount of 100000 and a 10%
  code capped at 5000 the discount is 5000.
\<close>

theorem calculate_discount_bound:
  "(discount_type dc = Fixed_amount \<longrightarrow> calculate_discount dc a \<le> a) \<and>
   (discount_type dc = Percentage \<and> max_discount_amount dc = Some m \<and> m \<noteq> 0 \<longrightarrow>
      calculate_discount dc a \<le> m) \<and>
   calculate_discount ten_percent_capped 100000 = 5000"
  by (simp add: calculate_discount_def ten_percent_capped_def)

theorem calculate_discount_bound_witness:
  "discount_type fixed_example = Fixed_amount \<and>
   calculate_discount fixed_example 2000 = 2000 \<and>
   discount_type ten_percent_capped = Percentage \<and>
   max_discount_amount ten_percent_capped = Some 5000 \<and> (5000::rat) \<noteq> 0 \<and>
   calculate_discount ten_percent_capped 100000 \<le> 5000"
proof -
  have "calculate_discount fixed_example 2000 = 2000"
    by (simp add: calculate_discount_def fixed_example_def)
  then show ?thesis
    using calculate_discount_bound [of fixed_example 2000 5000]
      calculate_discount_bound [of ten_percent_capped 100000 5000]
    by (simp add: fixed_example_def ten_percent_capped_def)
qed

text \<open>
  Claim C9 as stated fails: a 10% code whose \<^verbatim>\<open>max_discount_amount\<close> is set to 0 gives
  10000 on an order of 100000, which exceeds the cap of 0.
\<close>

theorem calculate_discount_zero_cap_counterexample:
  "discount_type ten_percent_zero_cap = Percentage \<and>
   max_discount_amount ten_percent_zero_cap = Some 0 \<and>
   calculate_discount ten_percent_zero_cap 100000 = 10000 \<and>
   \<not> calculate_discount ten_percent_zero_cap 100000 \<le> 0"
  by (simp add: calculate_discount_def ten_percent_zero_cap_def)

section \<open>Properties of check-in\<close>

lemma ticket_example_valid: "is_valid now ticket_example"
  by (simp add: is_valid_def ticket_example_def)

text \<open>The time window is read only by the validation of the check-in serializer, which
  accepts exactly a valid ticket at a time within \<open>[start_date - 2h, end_date]\<close>.\<close>

lemma validate_check_in_accepts:
  "validate_check_in now ev t = Inr () \<longleftrightarrow>
     is_valid now t \<and> start_date ev - timedelta_hours 2 \<le> now \<and> now \<le> end_date ev"
  by (auto simp: validate_check_in_def is_valid_def)

text \<open>
  Claim C10, as amended. \<^verbatim>\<open>check_in\<close> succeeds if and only if the ticket is valid
  (status active, not already checked in, not expired), at whatever time relative to
  the start and the end of the event. On success the ticket is checked in with status
  used; otherwise the call fails and the ticket is unchanged.
\<close>

theorem check_in_iff_valid:
  "(fst (check_in now loc who t) \<longleftrightarrow> is_valid now t) \<and>
   (is_valid now t \<longrightarrow>
      is_checked_in (snd (check_in now loc who t)) \<and>
      tk_status (snd (check_in now loc who t)) = Tk_used) \<and>
   (\<not> is_valid now t \<longrightarrow> snd (check_in now loc who t) = t)"
  by (auto simp: check_in_def is_valid_def)

theorem check_in_iff_valid_witness:
  "is_valid (timedelta_hours 9) ticket_example \<and>
   fst (check_in (timedelta_hours 9) ''Gate 1'' (Some 9) ticket_example) \<and>
   is_checked_in (snd (check_in (timedelta_hours 9) ''Gate 1'' (Some 9) ticket_example)) \<and>
   tk_status (snd (check_in (timedelta_hours 9) ''Gate 1'' (Some 9) ticket_example)) = Tk_used \<and>
   \<not> is_valid (timedelta_hours 9)
       (snd (check_in (timedelta_hours 9) ''Gate 1'' (Some 9) ticket_example)) \<and>
   check_in (timedelta_hours 9) ''Gate 2'' None
       (snd (check_in (timedelta_hours 9) ''Gate 1'' (Some 9) ticket_example)) =
     (False, snd (check_in (timedelta_hours 9) ''Gate 1'' (Some 9) ticket_example))"
proof -
  let ?t1 = "snd (check_in (timedelta_hours 9) ''Gate 1'' (Some 9) ticket_example)"
  have v: "is_valid (timedelta_hours 9) ticket_example"
    by (rule ticket_example_valid)
  have c: "is_checked_in ?t1"
    using v check_in_iff_valid [of "timedelta_hours 9" "''Gate 1''" "Some 9" ticket_example]
    by simp
  then have n: "\<not> is_valid (timedelta_hours 9) ?t1"
    by (simp add: is_valid_def)
  show ?thesis
    using v c n
      check_in_iff_valid [of "timedelta_hours 9" "''Gate 1''" "Some 9" ticket_example]
      check_in_iff_valid [of "timedelta_hours 9" "''Gate 2''" None ?t1]
    by (simp add: prod_eq_iff)
qed

text \<open>
  Claim C10 as stated fails: one hour after the end of the event, \<^verbatim>\<open>check_in\<close> on a
  valid ticket succeeds and marks the ticket used.
\<close>

theorem check_in_after_event_counterexample:
  "is_valid (timedelta_hours 13) ticket_example \<and>
   \<not> timedelta_hours 13 \<le> end_date event_example \<and>
   fst (check_in (timedelta_hours 13) ''Gate 1'' (Some 9) ticket_example) \<and>
   tk_status (snd (check_in (timedelta_hours 13) ''Gate 1'' (Some 9) ticket_example)) = Tk_used"
  by (simp add: check_in_def ticket_example_valid event_example_def timedelta_hours_def)
    (simp add: ticket_example_def)

end
